theory Spec2Isabelle
  imports Main "HOL-Library.Multiset"
begin

section \<open>The JavaScript runtime, as far as the server uses it\<close>

text \<open>
  A JavaScript string is a sequence of UTF-16 code units, here a list of numbers; \<open>js\<close>
  writes one whose characters are ASCII. The length of a string is the number of its code
  units. The texts that the server itself sends as the detail of an answer are its own
  literals and stay HOL strings.
\<close>

type_synonym jsstring = "nat list"

definition js :: "string \<Rightarrow> jsstring" where
  "js s = map of_char s"

text \<open>
  A JavaScript \<open>Date\<close> holds a time value: the milliseconds since 1970-01-01T00:00Z, or
  NaN for an Invalid Date. The time value is an \<open>int\<close> here, and \<open>None\<close> is the Invalid
  Date.

  The functions of the runtime and of the validation library that the server calls but
  does not define are the fields of a record:
  \<^item> \<open>localTZA t isUTC\<close>, the offset of the server's local time from UTC in milliseconds,
    as the language standard names it: the offset in force at the UTC time \<open>t\<close> when
    \<open>isUTC\<close> holds, and at the local time \<open>t\<close> otherwise (the two differ around a change
    of daylight saving);
  \<^item> \<open>Date.parse\<close> (\<open>None\<close> for NaN);
  \<^item> the validator's \<open>isISO8601\<close> check;
  \<^item> the number of characters that the validator's \<open>isLength\<close> counts in a string
    (it counts a surrogate pair once, and its versions differ on variation selectors);
  \<^item> the calendar-date part of \<open>toISOString\<close>.
\<close>

type_synonym jsdate = "int option"

record runtime =
  localTZA :: "int \<Rightarrow> bool \<Rightarrow> int"
  parseDate :: "jsstring \<Rightarrow> int option"
  isISO8601 :: "jsstring \<Rightarrow> bool"
  validatorLength :: "jsstring \<Rightarrow> nat"
  toISODate :: "int \<Rightarrow> jsstring"

text \<open>The values that reach \<open>new Date(...)\<close> in the server: \<open>null\<close>, a string, a Date.\<close>

datatype jsvalue = JNull | JString jsstring | JDate jsdate

definition msPerDay :: int where
  "msPerDay = 86400000"

text \<open>\<open>new Date(v)\<close>: \<open>null\<close> converts to the number 0, a string is parsed, a Date is copied.\<close>

fun newDate :: "runtime \<Rightarrow> jsvalue \<Rightarrow> jsdate" where
  "newDate rt JNull = Some 0"
| "newDate rt (JString s) = parseDate rt s"
| "newDate rt (JDate d) = d"

text \<open>
  \<open>getDay()\<close>: the day of the week of the local time \<open>t + localTZA t true\<close>, Sunday 0 to
  Saturday 6; day 0 of the epoch was a Thursday. \<open>None\<close> is NaN, the result on an Invalid
  Date.
\<close>

definition getDay :: "runtime \<Rightarrow> jsdate \<Rightarrow> int option" where
  "getDay rt d = map_option (\<lambda>t. (4 + (t + localTZA rt t True) div msPerDay) mod 7) d"

text \<open>
  \<open>setHours(0, 0, 0, 0)\<close>: the midnight that starts the day of the local time, taken back
  to UTC with the offset in force at that local midnight.
\<close>

definition setHours0 :: "runtime \<Rightarrow> jsdate \<Rightarrow> jsdate" where
  "setHours0 rt d =
     map_option (\<lambda>t. (let midnight = ((t + localTZA rt t True) div msPerDay) * msPerDay
                       in midnight - localTZA rt midnight False)) d"

text \<open>\<open>a < b\<close> on two Dates compares the time values; a comparison with NaN is false.\<close>

definition date_less :: "jsdate \<Rightarrow> jsdate \<Rightarrow> bool" where
  "date_less a b = (case a of None \<Rightarrow> False
                    | Some x \<Rightarrow> (case b of None \<Rightarrow> False | Some y \<Rightarrow> x < y))"

text \<open>
  The white space of the language: the characters that \<open>String.prototype.trim\<close> removes
  and that \<open>\s\<close> matches in the validator's \<open>trim()\<close>. They are TAB, LF, VT, FF, CR, the
  space, U+00A0, U+1680, U+2000 to U+200A, U+2028, U+2029, U+202F, U+205F, U+3000 and
  U+FEFF.
\<close>

definition isSpace :: "nat \<Rightarrow> bool" where
  "isSpace c =
     (c \<in> set [9, 10, 11, 12, 13, 32, 160, 5760, 8232, 8233, 8239, 8287, 12288, 65279]
      \<or> (8192 \<le> c \<and> c \<le> 8202))"

definition trim :: "jsstring \<Rightarrow> jsstring" where
  "trim s = rev (dropWhile isSpace (rev (dropWhile isSpace s)))"

section \<open>The time slots\<close>

text \<open>
  The slot names of \<open>server.js\<close> and \<open>models/Appointment.js\<close> are written with an en
  dash, the code unit U+2013.
\<close>

definition endash :: jsstring where
  "endash = [8211]"

definition slot_9_10 :: jsstring where
  "slot_9_10 = js ''9:00'' @ endash @ js ''10:00 AM''"

definition slot_10_11 :: jsstring where
  "slot_10_11 = js ''10:00'' @ endash @ js ''11:00 AM''"

definition slot_11_12 :: jsstring where
  "slot_11_12 = js ''11:00'' @ endash @ js ''12:00 PM''"

definition slot_12_1 :: jsstring where
  "slot_12_1 = js ''12:00'' @ endash @ js ''1:00 PM''"

definition slot_2_3 :: jsstring where
  "slot_2_3 = js ''2:00'' @ endash @ js ''3:00 PM''"

definition slot_3_4 :: jsstring where
  "slot_3_4 = js ''3:00'' @ endash @ js ''4:00 PM''"

definition allSlots :: "jsstring list" where
  "allSlots = [slot_9_10, slot_10_11, slot_11_12, slot_12_1, slot_2_3, slot_3_4]"

definition afternoonSlots :: "jsstring list" where
  "afternoonSlots = [slot_2_3, slot_3_4]"

definition saturdaySlots :: "jsstring list" where
  "saturdaySlots = [slot_9_10, slot_10_11, slot_11_12, slot_12_1]"

section \<open>\<open>validateAppointmentSlot\<close>\<close>

record slotValidation =
  isValid :: bool
  message :: "string option"

definition validateAppointmentSlot ::
    "runtime \<Rightarrow> int \<Rightarrow> jsvalue \<Rightarrow> jsstring \<Rightarrow> slotValidation" where
  "validateAppointmentSlot rt now appointmentDate timeSlot =
     (let date = newDate rt appointmentDate;
          dayOfWeek = getDay rt date
      in if dayOfWeek = Some 0 then
           \<lparr>isValid = False, message = Some ''Appointments are not available on Sundays''\<rparr>
         else if dayOfWeek = Some 6 \<and> timeSlot \<in> set afternoonSlots then
           \<lparr>isValid = False,
            message = Some ''On Saturdays, appointments are only available until 1:00 PM''\<rparr>
         else
           (let today = setHours0 rt (Some now);
                date0 = setHours0 rt date
            in if date_less date0 today then
                 \<lparr>isValid = False, message = Some ''Cannot book appointments for past dates''\<rparr>
               else \<lparr>isValid = True, message = None\<rparr>))"

section \<open>The stored appointments\<close>

text \<open>
  A document of the \<open>Appointment\<close> model. The collection is the list of its documents in
  the order of insertion. The schema declares \<open>id\<close> unique; its index on
  \<open>(appointmentDate, timeSlot)\<close> is not declared unique.
\<close>

record appointment =
  appt_id :: jsstring
  name :: jsstring
  sex :: jsstring
  age :: int
  complaint :: jsstring
  appointmentDate :: int
  timeSlot :: jsstring
  createdAt :: int
  updatedAt :: int
  status :: jsstring

type_synonym store = "appointment list"

definition sexes :: "jsstring list" where
  "sexes = [js ''Male'', js ''Female'', js ''Other'']"

definition statuses :: "jsstring list" where
  "statuses = [js ''scheduled'', js ''confirmed'', js ''cancelled'', js ''completed'']"

text \<open>
  The validators of the schema, which \<open>save\<close> runs on the document: the required fields
  are there, the lengths of name and complaint, counted in code units, are within their
  bounds, and sex, time slot and status are values of their enumerations.
\<close>

definition schemaValid :: "appointment \<Rightarrow> bool" where
  "schemaValid a =
     (appt_id a \<noteq> []
      \<and> name a \<noteq> [] \<and> 2 \<le> length (name a) \<and> length (name a) \<le> 100
      \<and> sex a \<in> set sexes
      \<and> 0 \<le> age a \<and> age a \<le> 150
      \<and> complaint a \<noteq> [] \<and> 5 \<le> length (complaint a) \<and> length (complaint a) \<le> 500
      \<and> timeSlot a \<in> set allSlots
      \<and> status a \<in> set statuses)"

text \<open>\<open>Appointment.findOne({appointmentDate, timeSlot})\<close>: the first document with both values.\<close>

definition findOne :: "int \<Rightarrow> jsstring \<Rightarrow> store \<Rightarrow> appointment option" where
  "findOne d s st = List.find (\<lambda>a. appointmentDate a = d \<and> timeSlot a = s) st"

text \<open>\<open>Appointment.find({appointmentDate})\<close>: the documents with that time value.\<close>

definition find_by_date :: "int \<Rightarrow> store \<Rightarrow> appointment list" where
  "find_by_date d st = filter (\<lambda>a. appointmentDate a = d) st"

text \<open>
  \<open>appointment.save()\<close>: it fails on a document that the validators of the schema
  refuse, and the insertion fails on a document whose \<open>id\<close> is already in the collection
  (the unique index). Nothing else about the document is checked against the collection.
\<close>

definition save :: "appointment \<Rightarrow> store \<Rightarrow> store option" where
  "save a st =
     (if \<not> schemaValid a then None
      else if appt_id a \<in> set (map appt_id st) then None
      else Some (st @ [a]))"

section \<open>Requests and responses\<close>

text \<open>
  The body of a booking request. A missing text field is the empty string, as the
  validator reads it; \<open>body_age\<close> is \<open>None\<close> when the field is not an integer.
\<close>

record body =
  body_name :: jsstring
  body_sex :: jsstring
  body_age :: "int option"
  body_complaint :: jsstring
  body_appointmentDate :: jsstring
  body_timeSlot :: jsstring

text \<open>The object sent for an appointment: the document and three added fields.\<close>

record appointmentResponse = appointment +
  appointment_date :: jsstring
  time_slot :: jsstring
  created_at :: int

definition toResponse :: "runtime \<Rightarrow> appointment \<Rightarrow> appointmentResponse" where
  "toResponse rt a = appointment.extend a
     (appointmentResponse.fields (toISODate rt (appointmentDate a)) (timeSlot a) (createdAt a))"

text \<open>
  What a handler sends: status 400 with the list of field errors, status 400 with a
  detail, status 500 (the detail without the text of the caught error), or the body of a
  status 200 answer of one of the three routes.
\<close>

datatype response =
    ValidationFailed "string list"
  | BadRequest string
  | ServerError string
  | Created appointmentResponse
  | Listing "appointmentResponse list"
  | AvailableSlots "jsstring list" "string option"

section \<open>\<open>appointmentValidation\<close>\<close>

text \<open>
  The messages of the validation chains that fail, in the order of the chains. A chain
  runs all its validators, so an empty name gives two messages. The chains of name and
  complaint trim the field first, and \<open>isLength\<close> counts characters as the validator
  does.
\<close>

definition validationErrors :: "runtime \<Rightarrow> body \<Rightarrow> string list" where
  "validationErrors rt b =
     (let n = trim (body_name b); c = trim (body_complaint b)
      in (if n = [] then [''Name is required''] else [])
       @ (if validatorLength rt n < 2 \<or> 100 < validatorLength rt n
          then [''Name must be between 2 and 100 characters''] else [])
       @ (if body_sex b = [] then [''Sex is required''] else [])
       @ (if body_sex b \<in> set sexes
          then [] else [''Sex must be Male, Female, or Other''])
       @ (case body_age b of
            None \<Rightarrow> [''Age must be a number between 0 and 150'']
          | Some a \<Rightarrow> if 0 \<le> a \<and> a \<le> 150 then []
                     else [''Age must be a number between 0 and 150''])
       @ (if c = [] then [''Complaint is required''] else [])
       @ (if validatorLength rt c < 5 \<or> 500 < validatorLength rt c
          then [''Complaint must be between 5 and 500 characters''] else [])
       @ (if isISO8601 rt (body_appointmentDate b) then []
          else [''Valid appointment date is required''])
       @ (if body_timeSlot b = [] then [''Time slot is required''] else [])
       @ (if body_timeSlot b \<in> set allSlots then [] else [''Invalid time slot selected'']))"

text \<open>The validator's \<open>toDate()\<close>: the parsed Date, or \<open>null\<close> when the string does not parse.\<close>

definition toDate :: "runtime \<Rightarrow> jsstring \<Rightarrow> jsvalue" where
  "toDate rt s = (case parseDate rt s of None \<Rightarrow> JNull | Some t \<Rightarrow> JDate (Some t))"

section \<open>\<open>POST /api/appointments\<close>\<close>

text \<open>
  The handler up to the answer of \<open>findOne\<close>: \<open>Some r\<close> when it has sent \<open>r\<close>, \<open>None\<close> when
  it goes on to create the appointment. A query with an Invalid Date is refused by the
  model layer, which the handler catches.
\<close>

definition book_precheck :: "runtime \<Rightarrow> int \<Rightarrow> body \<Rightarrow> store \<Rightarrow> response option" where
  "book_precheck rt now b st =
     (let errors = validationErrors rt b
      in if errors \<noteq> [] then Some (ValidationFailed errors)
         else
           (let date_field = toDate rt (body_appointmentDate b);
                slot = body_timeSlot b;
                slotValidation = validateAppointmentSlot rt now date_field slot
            in if \<not> isValid slotValidation then
                 Some (BadRequest (case message slotValidation of None \<Rightarrow> [] | Some m \<Rightarrow> m))
               else
                 (case newDate rt date_field of
                    None \<Rightarrow> Some (ServerError ''Failed to create appointment'')
                  | Some d \<Rightarrow>
                      (case findOne d slot st of
                         Some existingAppointment \<Rightarrow>
                           Some (BadRequest
                             ''This time slot is already booked for the selected date'')
                       | None \<Rightarrow> None))))"

text \<open>
  The new document: the generated \<open>uid\<close>, the fields of the body as the validation
  chains have left them (name and complaint trimmed), the defaults of the schema, and
  the \<open>trim\<close> that the schema sets on name and complaint.
\<close>

definition newAppointment :: "int \<Rightarrow> jsstring \<Rightarrow> body \<Rightarrow> int \<Rightarrow> int \<Rightarrow> appointment" where
  "newAppointment now uid b a d =
     \<lparr>appt_id = uid,
      name = trim (trim (body_name b)),
      sex = body_sex b,
      age = a,
      complaint = trim (trim (body_complaint b)),
      appointmentDate = d,
      timeSlot = body_timeSlot b,
      createdAt = now,
      updatedAt = now,
      status = js ''scheduled''\<rparr>"

text \<open>
  The rest of the handler: the new document, then \<open>save\<close> on the collection as it is at
  that moment. An age that is no number makes \<open>save\<close> fail; the handler catches every
  failure of \<open>save\<close> and answers with status 500.
\<close>

definition book_create ::
    "runtime \<Rightarrow> int \<Rightarrow> jsstring \<Rightarrow> body \<Rightarrow> store \<Rightarrow> response \<times> store" where
  "book_create rt now uid b st =
     (case newDate rt (toDate rt (body_appointmentDate b)) of
        None \<Rightarrow> (ServerError ''Failed to create appointment'', st)
      | Some d \<Rightarrow>
          (case body_age b of
             None \<Rightarrow> (ServerError ''Failed to create appointment'', st)
           | Some a \<Rightarrow>
               (let appointment = newAppointment now uid b a d
                in case save appointment st of
                     None \<Rightarrow> (ServerError ''Failed to create appointment'', st)
                   | Some st' \<Rightarrow> (Created (toResponse rt appointment), st'))))"

text \<open>One request served with no other request in between.\<close>

definition book :: "runtime \<Rightarrow> int \<Rightarrow> jsstring \<Rightarrow> body \<Rightarrow> store \<Rightarrow> response \<times> store" where
  "book rt now uid b st =
     (case book_precheck rt now b st of
        Some r \<Rightarrow> (r, st)
      | None \<Rightarrow> book_create rt now uid b st)"

section \<open>\<open>GET /api/appointments\<close>\<close>

definition list_appointments :: "runtime \<Rightarrow> store \<Rightarrow> response \<times> store" where
  "list_appointments rt st =
     (Listing (map (toResponse rt) (take 1000 (sort_key appointmentDate st))), st)"

section \<open>\<open>GET /api/appointments/available-slots\<close>\<close>

text \<open>
  The query parameter \<open>appointment_date\<close> is \<open>None\<close> when it is absent. The model layer refuses a query with
  an Invalid Date, which the handler catches and answers with status 500.
\<close>

definition available_slots :: "runtime \<Rightarrow> jsstring option \<Rightarrow> store \<Rightarrow> response \<times> store" where
  "available_slots rt date_param st =
     (case date_param of
        None \<Rightarrow> (BadRequest ''appointment_date query parameter is required'', st)
      | Some s \<Rightarrow>
          if s = [] then (BadRequest ''appointment_date query parameter is required'', st)
          else
            (let targetDate = newDate rt (JString s);
                 dayOfWeek = getDay rt targetDate
             in if dayOfWeek = Some 0 then
                  (AvailableSlots [] (Some ''No appointments available on Sundays''), st)
                else
                  (let availableSlots =
                         (if dayOfWeek = Some 6 then saturdaySlots else allSlots)
                   in case targetDate of
                        None \<Rightarrow> (ServerError ''Failed to fetch available slots'', st)
                      | Some d \<Rightarrow>
                          (let bookedSlots = map timeSlot (find_by_date d st)
                           in (AvailableSlots
                                 (filter (\<lambda>slot. slot \<notin> set bookedSlots) availableSlots)
                                 None, st)))))"

section \<open>Two requests served at the same time\<close>

text \<open>
  The handler of \<open>POST /api/appointments\<close> gives control back at its two \<open>await\<close>s, so
  another handler can run between the answer of \<open>findOne\<close> and the call of \<open>save\<close>. A
  handler is in one of three states: it has received the body, it has passed the checks
  and is about to save, or it has responded. A step runs a handler up to its next
  \<open>await\<close>.
\<close>

datatype handler = Received body | Creating body | Responded response

fun step :: "runtime \<Rightarrow> int \<Rightarrow> jsstring \<Rightarrow> handler \<Rightarrow> store \<Rightarrow> handler \<times> store" where
  "step rt now uid (Received b) st =
     (case book_precheck rt now b st of
        Some r \<Rightarrow> (Responded r, st)
      | None \<Rightarrow> (Creating b, st))"
| "step rt now uid (Creating b) st =
     (case book_create rt now uid b st of (r, st') \<Rightarrow> (Responded r, st'))"
| "step rt now uid (Responded r) st = (Responded r, st)"

text \<open>
  Two handlers \<open>A\<close> and \<open>B\<close> on one collection, and a schedule that says at each step
  which of them runs (\<open>True\<close> for \<open>A\<close>).
\<close>

fun run :: "runtime \<Rightarrow> int \<Rightarrow> jsstring \<Rightarrow> jsstring \<Rightarrow> bool list
            \<Rightarrow> handler \<times> handler \<times> store \<Rightarrow> handler \<times> handler \<times> store" where
  "run rt now uidA uidB [] s = s"
| "run rt now uidA uidB (first # schedule) (hA, hB, st) =
     (if first
      then (case step rt now uidA hA st of
              (hA', st') \<Rightarrow> run rt now uidA uidB schedule (hA', hB, st'))
      else (case step rt now uidB hB st of
              (hB', st') \<Rightarrow> run rt now uidA uidB schedule (hA, hB', st')))"

section \<open>Notions of the specification\<close>

text \<open>
  The specification speaks of a calendar date and its day of the week, of today, of the
  (date, time slot) pair of a record, of a request that the slot policy accepts, and of
  a day's theoretical slots. None of the following is read from the code.

  A date-only string \<open>YYYY-MM-DD\<close> is parsed to the midnight of UTC that starts that date.
  \<open>spec_dateDay\<close> is the number of the calendar date of a time value in UTC, which for
  such a string is the date asked for, and \<open>spec_weekday\<close> is the day of the week of that
  date, Sunday 0 to Saturday 6. \<open>spec_localDay\<close> is the number of the calendar date that
  the server's local clock shows at a time value: at the current time it is today.
  \<open>spec_theoreticalSlots\<close> follows the specification's words: all six slots, minus all of
  them on a Sunday, minus the two afternoon slots on a Saturday.
\<close>

definition spec_dateDay :: "int \<Rightarrow> int" where
  "spec_dateDay t = t div msPerDay"

definition spec_weekday :: "int \<Rightarrow> int" where
  "spec_weekday t = (4 + spec_dateDay t) mod 7"

definition spec_localDay :: "runtime \<Rightarrow> int \<Rightarrow> int" where
  "spec_localDay rt t = (t + localTZA rt t True) div msPerDay"

definition spec_theoreticalSlots :: "int \<Rightarrow> jsstring list" where
  "spec_theoreticalSlots day =
     filter (\<lambda>slot. day \<noteq> 0 \<and> \<not> (day = 6 \<and> slot \<in> {slot_2_3, slot_3_4})) allSlots"

text \<open>The time value that the handler of a booking looks up and stores.\<close>

definition requestedDate :: "runtime \<Rightarrow> body \<Rightarrow> int" where
  "requestedDate rt b =
     (case parseDate rt (body_appointmentDate b) of None \<Rightarrow> 0 | Some t \<Rightarrow> t)"

definition slotKey :: "appointment \<Rightarrow> int \<times> jsstring" where
  "slotKey a = (appointmentDate a, timeSlot a)"

definition policyAccepts :: "runtime \<Rightarrow> int \<Rightarrow> body \<Rightarrow> bool" where
  "policyAccepts rt now b =
     isValid (validateAppointmentSlot rt now (toDate rt (body_appointmentDate b))
                (body_timeSlot b))"

text \<open>The appointment of a status 200 answer to a booking, and the list of a listing.\<close>

definition created :: "response \<Rightarrow> appointmentResponse option" where
  "created r = (case r of Created a \<Rightarrow> Some a | _ \<Rightarrow> None)"

definition listing :: "response \<Rightarrow> appointmentResponse list" where
  "listing r = (case r of Listing as \<Rightarrow> as | _ \<Rightarrow> [])"

section \<open>Example data\<close>

text \<open>
  A server whose local time is a fixed number of milliseconds ahead of UTC all year. The
  library functions are given on the strings and time values of the examples, where they
  agree with Node.js and the validator: the date-only strings are parsed to the midnight
  of UTC, 2025-06-10 is a Tuesday, 2025-06-14 and 2024-01-13 are Saturdays, 2024-01-14 is
  a Sunday, the string \<open>tomorrow\<close> parses to an Invalid Date, and the strings of the
  examples have neither surrogate pairs nor variation selectors.
\<close>

definition runtime_at :: "int \<Rightarrow> runtime" where
  "runtime_at offset =
     \<lparr>localTZA = (\<lambda>t isUTC. offset),
      parseDate = map_of [(js ''2025-06-10'', 1749513600000), (js ''2025-06-14'', 1749859200000),
                          (js ''2024-01-14'', 1705190400000), (js ''2024-01-13'', 1705104000000)],
      isISO8601 = (\<lambda>s. s \<in> set [js ''2025-06-10'', js ''2025-06-14'', js ''2024-01-14'',
                                   js ''2024-01-13'']),
      validatorLength = length,
      toISODate = (\<lambda>t. if t = 1749513600000 then js ''2025-06-10''
                        else if t = 1749859200000 then js ''2025-06-14''
                        else if t = 1705190400000 then js ''2024-01-14''
                        else if t = 1705104000000 then js ''2024-01-13'' else [])\<rparr>"

text \<open>
  A server on UTC, a server five and a half hours east of it, and a server five hours
  west of it.
\<close>

definition example_runtime :: runtime where
  "example_runtime = runtime_at 0"

definition east_runtime :: runtime where
  "east_runtime = runtime_at 19800000"

definition west_runtime :: runtime where
  "west_runtime = runtime_at (- 18000000)"

definition example_body :: body where
  "example_body =
     \<lparr>body_name = js ''Asha Rao'', body_sex = js ''Female'', body_age = Some 30,
      body_complaint = js ''Toothache'', body_appointmentDate = js ''2025-06-10'',
      body_timeSlot = slot_9_10\<rparr>"

text \<open>The same request with white space around the name: two spaces, and U+00A0 after it.\<close>

definition padded_body :: body where
  "padded_body = example_body\<lparr>body_name := js ''  Asha Rao'' @ [160]\<rparr>"

text \<open>
  The document that a booking of \<open>example_body\<close> at 2025-06-01T00:00Z stores under the
  identifier \<open>uid\<close>.
\<close>

definition example_doc :: "jsstring \<Rightarrow> appointment" where
  "example_doc uid =
     \<lparr>appt_id = uid, name = js ''Asha Rao'', sex = js ''Female'', age = 30,
      complaint = js ''Toothache'', appointmentDate = 1749513600000, timeSlot = slot_9_10,
      createdAt = 1748736000000, updatedAt = 1748736000000, status = js ''scheduled''\<rparr>"

definition example_store :: store where
  "example_store =
     [(example_doc (js ''id-3''))\<lparr>appointmentDate := 1749859200000\<rparr>,
      example_doc (js ''id-1''),
      (example_doc (js ''id-2''))\<lparr>timeSlot := slot_2_3\<rparr>]"

section \<open>Calendar days and the server's clock\<close>

lemmas slot_defs =
  slot_9_10_def slot_10_11_def slot_11_12_def slot_12_1_def slot_2_3_def slot_3_4_def
  endash_def js_def

lemma morning_not_afternoon:
  "slot \<in> {slot_9_10, slot_10_11, slot_11_12, slot_12_1} \<Longrightarrow> slot \<notin> set afternoonSlots"
  by (auto simp: afternoonSlots_def slot_defs)

text \<open>
  Where the server's local clock shows the calendar date of a time value, \<open>getDay()\<close> is
  the day of the week of that date.
\<close>

lemma getDay_aligned:
  assumes "spec_localDay rt t = spec_dateDay t"
  shows "getDay rt (Some t) = Some (spec_weekday t)"
  using assms by (simp add: getDay_def spec_weekday_def spec_localDay_def)

text \<open>
  That is so for the midnight of UTC that a date-only string is parsed to, on every
  server whose offset from UTC at that time is not negative.
\<close>

lemma aligned_date_only:
  assumes "t mod msPerDay = 0" and "0 \<le> localTZA rt t True" and "localTZA rt t True < msPerDay"
  shows "spec_localDay rt t = spec_dateDay t"
proof -
  obtain k where k: "t = k * msPerDay"
    using assms(1) by (metis mod_eq_0_iff_dvd dvd_def mult.commute)
  have "(k * msPerDay + localTZA rt t True) div msPerDay = k"
    using assms(2,3) by (simp add: msPerDay_def)
  then show ?thesis
    by (simp add: spec_localDay_def spec_dateDay_def k [symmetric]) (simp add: k msPerDay_def)
qed

text \<open>
  On a server whose offsets from UTC differ by less than a day, comparing two dates after
  \<open>setHours(0, 0, 0, 0)\<close> compares their local calendar days.
\<close>

lemma setHours0_less:
  assumes "\<And>x y. localTZA rt x False - localTZA rt y False < msPerDay"
  shows "date_less (setHours0 rt (Some t)) (setHours0 rt (Some n))
           \<longleftrightarrow> spec_localDay rt t < spec_localDay rt n"
proof -
  define a where "a = spec_localDay rt t"
  define b where "b = spec_localDay rt n"
  have 1: "localTZA rt (a * msPerDay) False - localTZA rt (b * msPerDay) False < msPerDay"
    and 2: "localTZA rt (b * msPerDay) False - localTZA rt (a * msPerDay) False < msPerDay"
    using assms by blast+
  have "a * msPerDay - localTZA rt (a * msPerDay) False
          < b * msPerDay - localTZA rt (b * msPerDay) False \<longleftrightarrow> a < b"
  proof (cases "a = b")
    case True
    then show ?thesis by simp
  next
    case False
    then consider "a + 1 \<le> b" | "b + 1 \<le> a" by linarith
    then show ?thesis
    proof cases
      case 1
      then have "a * msPerDay + msPerDay \<le> b * msPerDay"
        by (simp add: msPerDay_def)
      then show ?thesis using 1 2 by linarith
    next
      case 2
      then have "b * msPerDay + msPerDay \<le> a * msPerDay"
        by (simp add: msPerDay_def)
      then show ?thesis using 2 1 by linarith
    qed
  qed
  then show ?thesis
    by (simp add: date_less_def setHours0_def Let_def a_def b_def spec_localDay_def)
qed

lemma setHours0_same_day:
  assumes "spec_localDay rt t = spec_localDay rt n"
  shows "setHours0 rt (Some t) = setHours0 rt (Some n)"
  using assms by (simp add: setHours0_def spec_localDay_def)

section \<open>The slot policy\<close>

text \<open>
  C3, as the code has it and where it reads the day of the week of the date asked for:
  for a date that is a Sunday, on a server whose local clock shows that same calendar
  date at the time value of the date (for a date-only string, a server at or east of
  UTC), \<open>validateAppointmentSlot\<close> rejects with the reason "Appointments are not
  available on Sundays", without a full stop, for every time slot and every current
  time; so a Sunday in the past gets the Sunday reason too, never the past-date reason.
\<close>

theorem sunday_rule_first:
  assumes "newDate rt d = Some t"
    and "spec_weekday t = 0"
    and "spec_localDay rt t = spec_dateDay t"
  shows "validateAppointmentSlot rt now d slot =
           \<lparr>isValid = False, message = Some ''Appointments are not available on Sundays''\<rparr>"
  using assms getDay_aligned [of rt t] by (simp add: validateAppointmentSlot_def)

text \<open>
  C4, as the code has it and where it reads the day of the week of the date asked for:
  for a date that is a Saturday, on a server whose local clock shows that same calendar
  date at the time value of the date and whose offsets from UTC differ by less than a
  day, \<open>validateAppointmentSlot\<close> rejects the slots 2:00 to 3:00 PM and 3:00 to 4:00 PM
  with the reason "On Saturdays, appointments are only available until 1:00 PM", without
  a full stop, whatever the current time is, and it allows each of the four slots from
  9:00 AM to 1:00 PM when the date is not before today.
\<close>

theorem saturday_rule:
  assumes "newDate rt d = Some t"
    and "spec_weekday t = 6"
    and "spec_localDay rt t = spec_dateDay t"
    and "\<And>x y. localTZA rt x False - localTZA rt y False < msPerDay"
  shows "(slot \<in> {slot_2_3, slot_3_4} \<longrightarrow>
            validateAppointmentSlot rt now d slot =
              \<lparr>isValid = False,
               message = Some ''On Saturdays, appointments are only available until 1:00 PM''\<rparr>)
       \<and> (slot \<in> {slot_9_10, slot_10_11, slot_11_12, slot_12_1}
            \<and> spec_localDay rt now \<le> spec_dateDay t \<longrightarrow>
            validateAppointmentSlot rt now d slot = \<lparr>isValid = True, message = None\<rparr>)"
  using assms(1-3) morning_not_afternoon [of slot] setHours0_less [OF assms(4), of t now]
    getDay_aligned [of rt t]
  by (auto simp: validateAppointmentSlot_def afternoonSlots_def)

text \<open>
  C5, as the code has it and where it compares the date asked for with today: for a
  date that is not a Sunday and, on a Saturday, with a slot that is not an afternoon
  slot, on a server whose local clock shows that same calendar date at the time value of
  the date and whose offsets from UTC differ by less than a day, \<open>validateAppointmentSlot\<close>
  rejects with the reason "Cannot book appointments for past dates", without a full
  stop, when the date is strictly before today, and allows the request when the date is
  today.
\<close>

theorem past_date_rule:
  assumes "newDate rt d = Some t"
    and "spec_localDay rt t = spec_dateDay t"
    and "\<And>x y. localTZA rt x False - localTZA rt y False < msPerDay"
    and "spec_weekday t \<noteq> 0"
    and "\<not> (spec_weekday t = 6 \<and> slot \<in> {slot_2_3, slot_3_4})"
  shows "(spec_dateDay t < spec_localDay rt now \<longrightarrow>
            validateAppointmentSlot rt now d slot =
              \<lparr>isValid = False, message = Some ''Cannot book appointments for past dates''\<rparr>)
       \<and> (spec_dateDay t = spec_localDay rt now \<longrightarrow>
            validateAppointmentSlot rt now d slot = \<lparr>isValid = True, message = None\<rparr>)"
  using assms(1,2,4,5) setHours0_less [OF assms(3), of t now] getDay_aligned [of rt t]
  by (auto simp: validateAppointmentSlot_def afternoonSlots_def)

lemma runtime_at_simps:
  "localTZA (runtime_at offset) t u = offset"
  "parseDate (runtime_at offset) (js ''2025-06-10'') = Some 1749513600000"
  "parseDate (runtime_at offset) (js ''2025-06-14'') = Some 1749859200000"
  "parseDate (runtime_at offset) (js ''2024-01-14'') = Some 1705190400000"
  "parseDate (runtime_at offset) (js ''2024-01-13'') = Some 1705104000000"
  "parseDate (runtime_at offset) (js ''tomorrow'') = None"
  "validatorLength (runtime_at offset) = length"
  by (simp_all add: runtime_at_def js_def)

lemmas example_runtimes = example_runtime_def east_runtime_def west_runtime_def

lemmas day_defs = spec_weekday_def spec_dateDay_def spec_localDay_def msPerDay_def

lemma east_regular:
  "localTZA east_runtime x False - localTZA east_runtime y False < msPerDay"
  by (simp add: example_runtimes runtime_at_simps msPerDay_def)

text \<open>
  On a server five hours west of UTC the date-only string of a date is parsed to a time
  value at which the local clock still shows the day before. There Sunday 2024-01-14 is
  read as a Saturday and a morning slot of it is accepted, Saturday 2024-01-13 is read as
  a Friday and an afternoon slot of it is accepted, and a request for 2025-06-10 made at
  the local noon of that day is refused as past. The three theorems above say nothing
  about such a server.
\<close>

lemma west_sunday_accepted:
  "spec_weekday 1705190400000 = 0
   \<and> getDay west_runtime (newDate west_runtime (JString (js ''2024-01-14''))) = Some 6
   \<and> validateAppointmentSlot west_runtime 1704067200000 (JString (js ''2024-01-14'')) slot_9_10 =
       \<lparr>isValid = True, message = None\<rparr>"
  using morning_not_afternoon [of slot_9_10]
  by (simp add: validateAppointmentSlot_def getDay_def setHours0_def date_less_def
      example_runtimes runtime_at_simps day_defs)

lemma west_saturday_afternoon_accepted:
  "spec_weekday 1705104000000 = 6
   \<and> getDay west_runtime (newDate west_runtime (JString (js ''2024-01-13''))) = Some 5
   \<and> validateAppointmentSlot west_runtime 1704067200000 (JString (js ''2024-01-13'')) slot_3_4 =
       \<lparr>isValid = True, message = None\<rparr>"
  by (simp add: validateAppointmentSlot_def getDay_def setHours0_def date_less_def
      example_runtimes runtime_at_simps day_defs)

lemma west_today_refused:
  "spec_dateDay 1749513600000 = spec_localDay west_runtime 1749574800000
   \<and> validateAppointmentSlot west_runtime 1749574800000 (JString (js ''2025-06-10'')) slot_9_10 =
       \<lparr>isValid = False, message = Some ''Cannot book appointments for past dates''\<rparr>"
  by (simp add: validateAppointmentSlot_def getDay_def setHours0_def date_less_def
      example_runtimes runtime_at_simps day_defs)

text \<open>
  C3, an instance: on a server five and a half hours east of UTC, Sunday 2024-01-14
  with an afternoon slot, asked on 2025-06-10, when that Sunday is in the past.
\<close>

theorem sunday_rule_first_witness:
  "newDate east_runtime (JString (js ''2024-01-14'')) = Some 1705190400000
   \<and> spec_weekday 1705190400000 = 0
   \<and> spec_localDay east_runtime 1705190400000 = spec_dateDay 1705190400000
   \<and> spec_dateDay 1705190400000 < spec_localDay east_runtime 1749513600000
   \<and> validateAppointmentSlot east_runtime 1749513600000 (JString (js ''2024-01-14'')) slot_3_4 =
       \<lparr>isValid = False, message = Some ''Appointments are not available on Sundays''\<rparr>"
proof -
  have d: "newDate east_runtime (JString (js ''2024-01-14'')) = Some 1705190400000"
    by (simp add: example_runtimes runtime_at_simps)
  have w: "spec_weekday 1705190400000 = 0"
    by (simp add: day_defs)
  have a: "spec_localDay east_runtime 1705190400000 = spec_dateDay 1705190400000"
    by (simp add: day_defs example_runtimes runtime_at_simps)
  have p: "spec_dateDay 1705190400000 < spec_localDay east_runtime 1749513600000"
    by (simp add: day_defs example_runtimes runtime_at_simps)
  from sunday_rule_first [OF d w a] d w a p show ?thesis by simp
qed

text \<open>
  C3 as it is written fails: on Sunday 2024-01-14, on a server on UTC, the reason
  returned is not the text "Appointments are not available on Sundays." that ends with
  a full stop; and on a server five hours west of UTC the request for that Sunday with
  the slot 9:00 to 10:00 AM, made on 2024-01-01, is allowed.
\<close>

theorem sunday_reason_counterexample:
  "newDate example_runtime (JString (js ''2024-01-14'')) = Some 1705190400000
   \<and> spec_weekday 1705190400000 = 0
   \<and> message (validateAppointmentSlot example_runtime 1749513600000
        (JString (js ''2024-01-14'')) slot_9_10)
       \<noteq> Some ''Appointments are not available on Sundays.''
   \<and> validateAppointmentSlot west_runtime 1704067200000 (JString (js ''2024-01-14'')) slot_9_10 =
       \<lparr>isValid = True, message = None\<rparr>"
  using west_sunday_accepted
  by (simp add: validateAppointmentSlot_def getDay_def example_runtime_def runtime_at_simps
      day_defs)

text \<open>
  C4, an instance: on a server five and a half hours east of UTC, Saturday 2024-01-13
  asked on 2024-01-01, with the slot 3:00 to 4:00 PM (rejected) and the slot 9:00 to
  10:00 AM (allowed).
\<close>

theorem saturday_rule_witness:
  "newDate east_runtime (JString (js ''2024-01-13'')) = Some 1705104000000
   \<and> spec_weekday 1705104000000 = 6
   \<and> spec_localDay east_runtime 1705104000000 = spec_dateDay 1705104000000
   \<and> validateAppointmentSlot east_runtime 1704067200000 (JString (js ''2024-01-13'')) slot_3_4 =
       \<lparr>isValid = False,
        message = Some ''On Saturdays, appointments are only available until 1:00 PM''\<rparr>
   \<and> spec_localDay east_runtime 1704067200000 \<le> spec_dateDay 1705104000000
   \<and> validateAppointmentSlot east_runtime 1704067200000 (JString (js ''2024-01-13'')) slot_9_10 =
       \<lparr>isValid = True, message = None\<rparr>"
proof -
  have d: "newDate east_runtime (JString (js ''2024-01-13'')) = Some 1705104000000"
    by (simp add: example_runtimes runtime_at_simps)
  have w: "spec_weekday 1705104000000 = 6"
    by (simp add: day_defs)
  have a: "spec_localDay east_runtime 1705104000000 = spec_dateDay 1705104000000"
    by (simp add: day_defs example_runtimes runtime_at_simps)
  have np: "spec_localDay east_runtime 1704067200000 \<le> spec_dateDay 1705104000000"
    by (simp add: day_defs example_runtimes runtime_at_simps)
  from saturday_rule [OF d w a east_regular, of slot_3_4 1704067200000]
       saturday_rule [OF d w a east_regular, of slot_9_10 1704067200000] d w a np
  show ?thesis by simp
qed

text \<open>
  C4 as it is written fails: on Saturday 2024-01-13, on a server on UTC, the reason
  returned for the slot 3:00 to 4:00 PM is not the text that ends with a full stop; and
  on a server five hours west of UTC the request for that Saturday with the slot 3:00 to
  4:00 PM, made on 2024-01-01, is allowed.
\<close>

theorem saturday_reason_counterexample:
  "newDate example_runtime (JString (js ''2024-01-13'')) = Some 1705104000000
   \<and> spec_weekday 1705104000000 = 6
   \<and> message (validateAppointmentSlot example_runtime 1704067200000
        (JString (js ''2024-01-13'')) slot_3_4)
       \<noteq> Some ''On Saturdays, appointments are only available until 1:00 PM.''
   \<and> validateAppointmentSlot west_runtime 1704067200000 (JString (js ''2024-01-13'')) slot_3_4 =
       \<lparr>isValid = True, message = None\<rparr>"
  using west_saturday_afternoon_accepted
  by (simp add: validateAppointmentSlot_def getDay_def afternoonSlots_def
      example_runtime_def runtime_at_simps day_defs)

text \<open>
  C5, an instance: on a server five and a half hours east of UTC, Tuesday 2025-06-10
  asked half an hour after the local midnight that ends it (rejected) and asked at its
  local noon (allowed).
\<close>

theorem past_date_rule_witness:
  "newDate east_runtime (JString (js ''2025-06-10'')) = Some 1749513600000
   \<and> spec_localDay east_runtime 1749513600000 = spec_dateDay 1749513600000
   \<and> spec_weekday 1749513600000 = 2
   \<and> spec_dateDay 1749513600000 < spec_localDay east_runtime 1749582000000
   \<and> validateAppointmentSlot east_runtime 1749582000000 (JString (js ''2025-06-10'')) slot_9_10 =
       \<lparr>isValid = False, message = Some ''Cannot book appointments for past dates''\<rparr>
   \<and> spec_dateDay 1749513600000 = spec_localDay east_runtime 1749537000000
   \<and> validateAppointmentSlot east_runtime 1749537000000 (JString (js ''2025-06-10'')) slot_9_10 =
       \<lparr>isValid = True, message = None\<rparr>"
proof -
  have d: "newDate east_runtime (JString (js ''2025-06-10'')) = Some 1749513600000"
    by (simp add: example_runtimes runtime_at_simps)
  have a: "spec_localDay east_runtime 1749513600000 = spec_dateDay 1749513600000"
    by (simp add: day_defs example_runtimes runtime_at_simps)
  have w: "spec_weekday 1749513600000 = 2"
    by (simp add: day_defs)
  have n0: "spec_weekday 1749513600000 \<noteq> 0"
    using w by simp
  have n6: "\<not> (spec_weekday 1749513600000 = 6 \<and> slot_9_10 \<in> {slot_2_3, slot_3_4})"
    using w by simp
  have lt: "spec_dateDay 1749513600000 < spec_localDay east_runtime 1749582000000"
    by (simp add: day_defs example_runtimes runtime_at_simps)
  have eq: "spec_dateDay 1749513600000 = spec_localDay east_runtime 1749537000000"
    by (simp add: day_defs example_runtimes runtime_at_simps)
  from past_date_rule [OF d a east_regular n0 n6, of 1749582000000]
       past_date_rule [OF d a east_regular n0 n6, of 1749537000000] d a w lt eq
  show ?thesis by simp
qed

text \<open>
  C5 as it is written fails: for Tuesday 2025-06-10 asked on 2025-06-11, on a server on
  UTC, the reason returned is not the text "Cannot book appointments for past dates."
  that ends with a full stop; and on a server five hours west of UTC the request for
  2025-06-10 made at the local noon of that day, so for today's own date, is refused as
  past.
\<close>

theorem past_reason_counterexample:
  "newDate example_runtime (JString (js ''2025-06-10'')) = Some 1749513600000
   \<and> spec_weekday 1749513600000 = 2
   \<and> spec_dateDay 1749513600000 < spec_localDay example_runtime 1749600000000
   \<and> message (validateAppointmentSlot example_runtime 1749600000000
        (JString (js ''2025-06-10'')) slot_9_10)
       \<noteq> Some ''Cannot book appointments for past dates.''
   \<and> spec_dateDay 1749513600000 = spec_localDay west_runtime 1749574800000
   \<and> validateAppointmentSlot west_runtime 1749574800000 (JString (js ''2025-06-10'')) slot_9_10 =
       \<lparr>isValid = False, message = Some ''Cannot book appointments for past dates''\<rparr>"
  using west_today_refused
  by (simp add: validateAppointmentSlot_def getDay_def setHours0_def date_less_def
      example_runtime_def runtime_at_simps day_defs)

section \<open>Booking\<close>

text \<open>Trimming a trimmed string changes nothing.\<close>

lemma dropWhile_rev_prefix:
  assumes "u = [] \<or> \<not> P (hd u)"
  shows "dropWhile P (rev (dropWhile P (rev u))) = rev (dropWhile P (rev u))"
proof (cases "dropWhile P (rev u) = []")
  case True
  show ?thesis unfolding True by simp
next
  case False
  define w where "w = rev (dropWhile P (rev u))"
  have "rev u = takeWhile P (rev u) @ dropWhile P (rev u)" by simp
  then have "u = w @ rev (takeWhile P (rev u))"
    by (metis rev_append rev_rev_ident w_def)
  moreover have "w \<noteq> []" using False by (simp add: w_def)
  ultimately have "hd w = hd u" and "u \<noteq> []"
    by (metis hd_append2, metis append_is_Nil_conv)
  then have "\<not> P (hd w)" using assms by simp
  then have "dropWhile P w = w"
    using \<open>w \<noteq> []\<close> by (cases w) simp_all
  then show ?thesis by (simp add: w_def)
qed

lemma trim_trim: "trim (trim s) = trim s"
proof -
  have "dropWhile isSpace s = [] \<or> \<not> isSpace (hd (dropWhile isSpace s))"
    by (metis hd_dropWhile)
  then show ?thesis
    by (simp add: trim_def dropWhile_rev_prefix)
qed

lemma newDate_toDate:
  "newDate rt (toDate rt (body_appointmentDate b)) = Some (requestedDate rt b)"
  by (simp add: toDate_def requestedDate_def split: option.split)

lemma findOne_None_iff:
  "findOne d s st = None \<longleftrightarrow> (d, s) \<notin> set (map slotKey st)"
  by (auto simp: findOne_def find_None_iff slotKey_def)

text \<open>The four exits of the handler before it creates the appointment, in their order.\<close>

lemma book_precheck_cases:
  "book_precheck rt now b st =
     (if validationErrors rt b \<noteq> [] then Some (ValidationFailed (validationErrors rt b))
      else if \<not> policyAccepts rt now b then
        Some (BadRequest (case message (validateAppointmentSlot rt now
                (toDate rt (body_appointmentDate b)) (body_timeSlot b)) of
              None \<Rightarrow> [] | Some m \<Rightarrow> m))
      else if (requestedDate rt b, body_timeSlot b) \<in> set (map slotKey st) then
        Some (BadRequest ''This time slot is already booked for the selected date'')
      else None)"
  using findOne_None_iff [of "requestedDate rt b" "body_timeSlot b" st]
  by (auto simp: book_precheck_def Let_def newDate_toDate policyAccepts_def split: option.split)

lemma book_create_cases:
  "book_create rt now uid b st =
     (case body_age b of
        None \<Rightarrow> (ServerError ''Failed to create appointment'', st)
      | Some a \<Rightarrow>
          if \<not> schemaValid (newAppointment now uid b a (requestedDate rt b))
               \<or> uid \<in> set (map appt_id st)
          then (ServerError ''Failed to create appointment'', st)
          else (Created (toResponse rt (newAppointment now uid b a (requestedDate rt b))),
                st @ [newAppointment now uid b a (requestedDate rt b)]))"
  by (simp add: book_create_def newDate_toDate save_def Let_def newAppointment_def
      split: option.split)

lemma slotKey_newAppointment:
  "slotKey (newAppointment now uid b a d) = (d, body_timeSlot b)"
  by (simp add: slotKey_def newAppointment_def)

lemma book_taken_unchanged:
  assumes "(requestedDate rt b, body_timeSlot b) \<in> set (map slotKey st)"
  shows "snd (book rt now uid b st) = st"
  using assms by (simp add: book_def book_precheck_cases)

lemma book_taken_duplicate:
  assumes "(requestedDate rt b, body_timeSlot b) \<in> set (map slotKey st)"
    and "validationErrors rt b = []" and "policyAccepts rt now b"
  shows "book rt now uid b st =
           (BadRequest ''This time slot is already booked for the selected date'', st)"
  using assms by (simp add: book_def book_precheck_cases)

text \<open>What a status 200 answer to a booking says about the request and the collection.\<close>

lemma book_Created:
  assumes "book rt now uid b st = (Created r, st')"
  shows "validationErrors rt b = []" and "policyAccepts rt now b"
    and "(requestedDate rt b, body_timeSlot b) \<notin> set (map slotKey st)"
    and "uid \<notin> set (map appt_id st)"
    and "\<exists>a. body_age b = Some a
           \<and> r = toResponse rt (newAppointment now uid b a (requestedDate rt b))
           \<and> st' = st @ [newAppointment now uid b a (requestedDate rt b)]"
  using assms
  by (auto simp: book_def book_precheck_cases book_create_cases
      split: if_splits option.splits)

text \<open>The policy reads the current time only through the start of the local day.\<close>

lemma policyAccepts_same_day:
  assumes "spec_localDay rt now' = spec_localDay rt now"
  shows "policyAccepts rt now' b = policyAccepts rt now b"
  using setHours0_same_day [OF assms]
  by (simp add: policyAccepts_def validateAppointmentSlot_def Let_def)

lemma book_repeat:
  assumes "book rt now uid b st = (Created r, st')"
    and "spec_localDay rt now' = spec_localDay rt now"
  shows "book rt now' uid' b st' =
           (BadRequest ''This time slot is already booked for the selected date'', st')"
proof -
  have "(requestedDate rt b, body_timeSlot b) \<in> set (map slotKey st')"
    using book_Created(5) [OF assms(1)] by (auto simp: slotKey_newAppointment)
  moreover have "policyAccepts rt now' b"
    using book_Created(2) [OF assms(1)] policyAccepts_same_day [OF assms(2)] by simp
  ultimately show ?thesis
    using book_Created(1) [OF assms(1)] by (simp add: book_taken_duplicate)
qed

lemma book_keeps_distinct:
  assumes "distinct (map slotKey st)"
  shows "distinct (map slotKey (snd (book rt now uid b st)))"
  using assms
  by (auto simp: book_def book_precheck_cases book_create_cases slotKey_newAppointment
      split: option.split)

text \<open>
  C1, as the code has it, for requests served one after the other. When a stored record,
  whatever its status, has the date and the time slot of a booking request, the booking
  inserts nothing; and when the request also passes the validation of its fields and the
  slot policy, the answer is the duplicate-booking error. After a successful booking, the
  same request repeated on the same calendar day gets the duplicate-booking error and
  inserts nothing. A booking keeps the (date, time slot) pairs of the collection
  distinct.
\<close>

theorem book_no_double_booking:
  "((\<exists>a \<in> set st. appointmentDate a = requestedDate rt b \<and> timeSlot a = body_timeSlot b) \<longrightarrow>
      snd (book rt now uid b st) = st
      \<and> (validationErrors rt b = [] \<and> policyAccepts rt now b \<longrightarrow>
           fst (book rt now uid b st) =
             BadRequest ''This time slot is already booked for the selected date''))
   \<and> (\<forall>r st'. book rt now uid b st = (Created r, st')
               \<and> spec_localDay rt now' = spec_localDay rt now \<longrightarrow>
        book rt now' uid' b st' =
          (BadRequest ''This time slot is already booked for the selected date'', st'))
   \<and> (distinct (map slotKey st) \<longrightarrow> distinct (map slotKey (snd (book rt now uid b st))))"
proof -
  have taken: "(requestedDate rt b, body_timeSlot b) \<in> set (map slotKey st)"
    if "\<exists>a \<in> set st. appointmentDate a = requestedDate rt b \<and> timeSlot a = body_timeSlot b"
    using that by (force simp: slotKey_def)
  show ?thesis
    using taken book_taken_unchanged [of rt b st now uid]
      book_taken_duplicate [of rt b st now uid] book_repeat [of rt now uid b st _ _ now' uid']
      book_keeps_distinct [of st rt now uid b]
    by (intro conjI impI allI) auto
qed

lemma example_body_fields:
  "body_name example_body = js ''Asha Rao''" "body_sex example_body = js ''Female''"
  "body_age example_body = Some 30" "body_complaint example_body = js ''Toothache''"
  "body_appointmentDate example_body = js ''2025-06-10''"
  "body_timeSlot example_body = slot_9_10"
  by (simp_all add: example_body_def)

lemma trim_examples:
  "trim (js ''Asha Rao'') = js ''Asha Rao''" "trim (js ''Toothache'') = js ''Toothache''"
  "trim (js ''  Asha Rao'' @ [160]) = js ''Asha Rao''"
  by (simp_all add: trim_def isSpace_def js_def)

lemma example_body_valid: "validationErrors (runtime_at offset) example_body = []"
proof -
  have "isISO8601 (runtime_at offset) (js ''2025-06-10'')"
    by (simp add: runtime_at_def)
  moreover have "js ''Female'' \<in> set sexes" "js ''Female'' \<noteq> []" "slot_9_10 \<noteq> []"
    "slot_9_10 \<in> set allSlots" "js ''Asha Rao'' \<noteq> []" "js ''Toothache'' \<noteq> []"
    "length (js ''Asha Rao'') = 8" "length (js ''Toothache'') = 9"
    by (simp_all add: sexes_def allSlots_def slot_9_10_def js_def)
  ultimately show ?thesis
    by (simp add: validationErrors_def example_body_fields trim_examples runtime_at_simps)
qed

lemma example_requestedDate: "requestedDate (runtime_at offset) example_body = 1749513600000"
  by (simp add: requestedDate_def example_body_fields runtime_at_simps)

lemma example_policy_before: "policyAccepts example_runtime 1748736000000 example_body"
  by (simp add: policyAccepts_def validateAppointmentSlot_def toDate_def getDay_def
      setHours0_def date_less_def example_body_fields example_runtimes runtime_at_simps
      msPerDay_def)

lemma example_newAppointment:
  "newAppointment 1748736000000 uid example_body 30 1749513600000 = example_doc uid"
  by (simp add: newAppointment_def example_doc_def example_body_fields trim_examples)

lemma example_doc_valid: "uid \<noteq> [] \<Longrightarrow> schemaValid (example_doc uid)"
  by (simp add: schemaValid_def example_doc_def sexes_def statuses_def allSlots_def js_def)

lemma js_id_nonempty: "js ''id-1'' \<noteq> []" "js ''id-2'' \<noteq> []" "js ''id-1'' \<noteq> js ''id-2''"
  by (simp_all add: js_def)

lemma example_create:
  "uid \<noteq> [] \<Longrightarrow> uid \<notin> set (map appt_id st) \<Longrightarrow>
   book_create example_runtime 1748736000000 uid example_body st =
     (Created (toResponse example_runtime (example_doc uid)), st @ [example_doc uid])"
  by (simp add: book_create_cases example_requestedDate example_body_fields
      example_newAppointment example_doc_valid example_runtimes)

lemma example_precheck_empty:
  "book_precheck example_runtime 1748736000000 example_body [] = None"
  using example_body_valid [of 0] example_policy_before
  by (simp add: book_precheck_cases example_runtimes)

lemma example_book_first:
  "book example_runtime 1748736000000 (js ''id-1'') example_body [] =
     (Created (toResponse example_runtime (example_doc (js ''id-1''))), [example_doc (js ''id-1'')])"
  using example_create [of "js ''id-1''" "[]"]
  by (simp add: book_def example_precheck_empty js_id_nonempty)

lemma example_doc_fields:
  "appt_id (example_doc uid) = uid"
  "appointmentDate (example_doc uid) = 1749513600000"
  "timeSlot (example_doc uid) = slot_9_10"
  by (simp_all add: example_doc_def)

text \<open>
  C1, an instance (scenario D of the specification): the booking of Tuesday 2025-06-10,
  9:00 to 10:00 AM, made on 2025-06-01 in an empty collection succeeds; the same request
  a minute later finds the stored record, gets the duplicate-booking error and leaves the
  collection with its one record.
\<close>

theorem book_no_double_booking_witness:
  "(\<exists>a \<in> set [example_doc (js ''id-1'')].
       appointmentDate a = requestedDate example_runtime example_body
       \<and> timeSlot a = body_timeSlot example_body)
   \<and> validationErrors example_runtime example_body = []
   \<and> policyAccepts example_runtime 1748736000000 example_body
   \<and> book example_runtime 1748736000000 (js ''id-1'') example_body [] =
       (Created (toResponse example_runtime (example_doc (js ''id-1''))),
        [example_doc (js ''id-1'')])
   \<and> spec_localDay example_runtime 1748736060000
       = spec_localDay example_runtime 1748736000000
   \<and> book example_runtime 1748736060000 (js ''id-2'') example_body [example_doc (js ''id-1'')] =
       (BadRequest ''This time slot is already booked for the selected date'',
        [example_doc (js ''id-1'')])
   \<and> distinct (map slotKey [example_doc (js ''id-1'')])
   \<and> distinct (map slotKey (snd (book example_runtime 1748736060000 (js ''id-2'') example_body
         [example_doc (js ''id-1'')])))"
proof -
  have v: "validationErrors example_runtime example_body = []"
    using example_body_valid [of 0] by (simp add: example_runtimes)
  have ex: "\<exists>a \<in> set [example_doc (js ''id-1'')].
       appointmentDate a = requestedDate example_runtime example_body
       \<and> timeSlot a = body_timeSlot example_body"
    by (simp add: example_requestedDate example_runtimes example_doc_fields example_body_fields)
  have day: "spec_localDay example_runtime 1748736060000
               = spec_localDay example_runtime 1748736000000"
    by (simp add: day_defs example_runtimes runtime_at_simps)
  have d: "distinct (map slotKey [example_doc (js ''id-1'')])"
    by simp
  note first = book_no_double_booking [of "[]" example_runtime example_body 1748736000000
      "js ''id-1''" 1748736060000 "js ''id-2''"]
  note second = book_no_double_booking [of "[example_doc (js ''id-1'')]" example_runtime
      example_body 1748736060000 "js ''id-2''" 1748736060000 "js ''id-2''"]
  have rep: "book example_runtime 1748736060000 (js ''id-2'') example_body
       [example_doc (js ''id-1'')] =
       (BadRequest ''This time slot is already booked for the selected date'',
        [example_doc (js ''id-1'')])"
    using first example_book_first day by blast
  have keep: "distinct (map slotKey (snd (book example_runtime 1748736060000 (js ''id-2'')
      example_body [example_doc (js ''id-1'')])))"
    using second d by blast
  show ?thesis
    using ex v example_policy_before example_book_first day rep d keep
    by blast
qed

text \<open>
  C1 as it is written fails: with the record of Tuesday 2025-06-10, 9:00 to 10:00 AM in
  the collection, the request for that date and slot made on 2025-06-11 is refused by the
  slot policy, which the handler asks first, and the answer is the past-date reason, not
  the duplicate-booking error.
\<close>

theorem book_past_slot_counterexample:
  "appointmentDate (example_doc (js ''id-1'')) = requestedDate example_runtime example_body
   \<and> timeSlot (example_doc (js ''id-1'')) = body_timeSlot example_body
   \<and> book example_runtime 1749600000000 (js ''id-2'') example_body [example_doc (js ''id-1'')] =
       (BadRequest ''Cannot book appointments for past dates'', [example_doc (js ''id-1'')])"
proof -
  have v: "validationErrors example_runtime example_body = []"
    using example_body_valid [of 0] by (simp add: example_runtimes)
  have m: "validateAppointmentSlot example_runtime 1749600000000
      (toDate example_runtime (body_appointmentDate example_body)) (body_timeSlot example_body)
      = \<lparr>isValid = False, message = Some ''Cannot book appointments for past dates''\<rparr>"
    by (simp add: validateAppointmentSlot_def toDate_def getDay_def
      setHours0_def date_less_def example_body_fields example_runtimes runtime_at_simps
      msPerDay_def)
  then have "\<not> policyAccepts example_runtime 1749600000000 example_body"
    by (simp add: policyAccepts_def)
  then show ?thesis
    using v m
    by (simp add: book_def book_precheck_cases example_requestedDate example_runtimes
        example_doc_fields example_body_fields)
qed

section \<open>Two bookings of one slot at the same time\<close>

text \<open>A handler that runs its two steps with nothing in between is \<open>book\<close>.\<close>

lemma run_alone:
  "run rt now uidA uidB [True, True] (Received b, hB, st) =
     (Responded (fst (book rt now uidA b st)), hB, snd (book rt now uidA b st))"
  by (simp add: book_def split: option.split prod.split)

text \<open>
  C2 does not hold of the code: two requests for Tuesday 2025-06-10, 9:00 to 10:00 AM
  arrive on an empty collection, and each handler gets the answer of its \<open>findOne\<close>
  before the other one saves. Both are answered with status 200 and their appointment,
  and the collection then holds two records with the same date and the same time slot:
  \<open>save\<close> refuses a repeated \<open>id\<close> only.
\<close>

theorem concurrent_bookings_both_succeed:
  "run example_runtime 1748736000000 (js ''id-1'') (js ''id-2'') [True, False, True, False]
       (Received example_body, Received example_body, []) =
     (Responded (Created (toResponse example_runtime (example_doc (js ''id-1'')))),
      Responded (Created (toResponse example_runtime (example_doc (js ''id-2'')))),
      [example_doc (js ''id-1''), example_doc (js ''id-2'')])
   \<and> slotKey (example_doc (js ''id-1'')) = slotKey (example_doc (js ''id-2''))"
proof -
  have a: "book_create example_runtime 1748736000000 (js ''id-1'') example_body [] =
      (Created (toResponse example_runtime (example_doc (js ''id-1''))),
       [example_doc (js ''id-1'')])"
    using example_create [of "js ''id-1''" "[]"] by (simp add: js_id_nonempty)
  have "js ''id-2'' \<noteq> js ''id-1''"
    using js_id_nonempty(3) by simp
  then have b: "book_create example_runtime 1748736000000 (js ''id-2'') example_body
       [example_doc (js ''id-1'')] =
      (Created (toResponse example_runtime (example_doc (js ''id-2''))),
       [example_doc (js ''id-1''), example_doc (js ''id-2'')])"
    using example_create [of "js ''id-2''" "[example_doc (js ''id-1'')]"]
    by (simp add: js_id_nonempty example_doc_fields)
  show ?thesis
    by (simp add: example_precheck_empty a b example_doc_fields slotKey_def)
qed

section \<open>Listing the appointments\<close>

lemma toResponse_fields:
  "appt_id (toResponse rt a) = appt_id a" "name (toResponse rt a) = name a"
  "sex (toResponse rt a) = sex a" "age (toResponse rt a) = age a"
  "complaint (toResponse rt a) = complaint a"
  "appointmentDate (toResponse rt a) = appointmentDate a"
  "timeSlot (toResponse rt a) = timeSlot a"
  "createdAt (toResponse rt a) = createdAt a"
  "updatedAt (toResponse rt a) = updatedAt a"
  "status (toResponse rt a) = status a"
  "appointment_date (toResponse rt a) = toISODate rt (appointmentDate a)"
  "time_slot (toResponse rt a) = timeSlot a"
  "created_at (toResponse rt a) = createdAt a"
  "appointment.truncate (toResponse rt a) = a"
  by (simp_all add: toResponse_def appointment.defs appointmentResponse.defs)

text \<open>
  C7: the listing leaves the collection as it was and sends stored records, each as a
  record of the collection with the three added fields computed from it, in ascending
  order of their appointment date. It sends all of them when the collection holds at
  most 1000, and exactly 1000 otherwise; the ones left out then have dates that are not
  before any date sent.
\<close>

theorem list_appointments_sorted_capped:
  "\<exists>rs. list_appointments rt st = (Listing rs, st)
      \<and> (\<forall>r \<in> set rs. appointment_date r = toISODate rt (appointmentDate r)
                       \<and> time_slot r = timeSlot r \<and> created_at r = createdAt r)
      \<and> sorted (map appointmentDate rs)
      \<and> length rs = min 1000 (length st)
      \<and> mset (map appointment.truncate rs) \<subseteq># mset st
      \<and> (length st \<le> 1000 \<longrightarrow> mset (map appointment.truncate rs) = mset st)
      \<and> (\<forall>a \<in># mset st - mset (map appointment.truncate rs).
            \<forall>r \<in> set rs. appointmentDate r \<le> appointmentDate a)"
proof -
  define ys where "ys = sort_key appointmentDate st"
  define xs where "xs = take 1000 ys"
  define rs where "rs = map (toResponse rt) xs"
  have tr: "map appointment.truncate rs = xs"
    by (simp add: rs_def comp_def toResponse_fields)
  have ms: "mset ys = mset st" by (simp add: ys_def)
  have so: "sorted (map appointmentDate ys)" by (simp add: ys_def)
  have split: "ys = xs @ drop 1000 ys" by (simp add: xs_def)
  have 1: "list_appointments rt st = (Listing rs, st)"
    by (simp add: list_appointments_def rs_def xs_def ys_def)
  have 2: "\<forall>r \<in> set rs. appointment_date r = toISODate rt (appointmentDate r)
                       \<and> time_slot r = timeSlot r \<and> created_at r = createdAt r"
    by (auto simp: rs_def toResponse_fields)
  have sx: "sorted (map appointmentDate xs)"
    using so by (simp add: xs_def take_map [symmetric])
  then have 3: "sorted (map appointmentDate rs)"
    by (simp add: rs_def comp_def toResponse_fields)
  have 4: "length rs = min 1000 (length st)"
    by (simp add: rs_def xs_def ys_def min.commute)
  have rest: "mset st - mset xs = mset (drop 1000 ys)"
    using ms split by (metis add_diff_cancel_left' mset_append)
  have 5: "mset xs \<subseteq># mset st"
    using ms split by (metis mset_append mset_subset_eq_add_left)
  have 6: "length st \<le> 1000 \<longrightarrow> mset xs = mset st"
  proof
    assume "length st \<le> 1000"
    then have "length ys \<le> 1000" by (simp add: ys_def)
    then show "mset xs = mset st" using ms by (simp add: xs_def)
  qed
  have 7: "\<forall>a \<in># mset st - mset xs. \<forall>r \<in> set rs. appointmentDate r \<le> appointmentDate a"
  proof (intro ballI)
    fix a r assume "a \<in># mset st - mset xs" and "r \<in> set rs"
    then have a: "a \<in> set (drop 1000 ys)" and "appointmentDate r \<in> appointmentDate ` set xs"
      by (auto simp: rest rs_def toResponse_fields)
    then obtain x where x: "x \<in> set xs" "appointmentDate r = appointmentDate x" by blast
    have "sorted (map appointmentDate xs @ map appointmentDate (drop 1000 ys))"
      using so split by (metis map_append)
    then show "appointmentDate r \<le> appointmentDate a"
      using a x by (auto simp: sorted_append)
  qed
  from 1 2 3 4 5 6 7 show ?thesis unfolding tr [symmetric] by blast
qed

text \<open>
  C7, two instances: three records stored with the dates 2025-06-14, 2025-06-10 and
  2025-06-10 are sent with the two of 2025-06-10 first, all three of them, in ascending
  order of date; and of 1001 stored records 1000 are sent.
\<close>

theorem list_appointments_sorted_capped_witness:
  "length example_store \<le> 1000
   \<and> list_appointments example_runtime example_store =
       (Listing (map (toResponse example_runtime)
          [example_doc (js ''id-1''),
           (example_doc (js ''id-2''))\<lparr>timeSlot := slot_2_3\<rparr>,
           (example_doc (js ''id-3''))\<lparr>appointmentDate := 1749859200000\<rparr>]), example_store)
   \<and> sorted (map appointmentDate
        (listing (fst (list_appointments example_runtime example_store))))
   \<and> length (listing (fst (list_appointments example_runtime example_store))) = 3
   \<and> length (listing (fst (list_appointments example_runtime
        (replicate 1001 (example_doc (js ''id-1'')))))) = 1000"
proof -
  have len: "length example_store \<le> 1000" and len3: "length example_store = 3"
    by (simp_all add: example_store_def)
  have srt: "sort_key appointmentDate example_store =
      [example_doc (js ''id-1''),
       (example_doc (js ''id-2''))\<lparr>timeSlot := slot_2_3\<rparr>,
       (example_doc (js ''id-3''))\<lparr>appointmentDate := 1749859200000\<rparr>]"
    by (simp add: example_store_def example_doc_def)
  obtain rs where rs: "list_appointments example_runtime example_store
        = (Listing rs, example_store)"
    and sorted: "sorted (map appointmentDate rs)"
    and n: "length rs = min 1000 (length example_store)"
    using list_appointments_sorted_capped [of example_runtime example_store] by blast
  have three: "length (listing (fst (list_appointments example_runtime example_store))) = 3"
    using n by (simp add: rs listing_def len3)
  have ordered: "sorted (map appointmentDate
        (listing (fst (list_appointments example_runtime example_store))))"
    using sorted by (simp add: rs listing_def)
  obtain rs' where rs': "list_appointments example_runtime
        (replicate 1001 (example_doc (js ''id-1''))) =
          (Listing rs', replicate 1001 (example_doc (js ''id-1'')))"
    and n': "length rs' = min 1000 (length (replicate 1001 (example_doc (js ''id-1''))))"
    using list_appointments_sorted_capped
      [of example_runtime "replicate 1001 (example_doc (js ''id-1''))"] by blast
  have capped: "length (listing (fst (list_appointments example_runtime
        (replicate 1001 (example_doc (js ''id-1'')))))) = 1000"
    using n' by (simp add: rs' listing_def)
  have "list_appointments example_runtime example_store =
     (Listing (map (toResponse example_runtime) (sort_key appointmentDate example_store)),
      example_store)"
    using len by (simp add: list_appointments_def)
  with srt len three ordered capped show ?thesis by simp
qed

section \<open>From the request to the listing\<close>

text \<open>
  C8, as the code has it: the appointment of a successful booking carries the sex, the
  age and the time slot of the request as they were sent, the name and the complaint
  with the white space at both ends removed, and the date that the date string of the
  request parses to; its identifier, its times of creation and of update and its
  status are the generated identifier, the current time and "scheduled", and its three added fields are
  the calendar date of its date, its time slot and its time of creation. A record of the
  later listing with the identifier of the booking is that appointment, and the listing
  has it when the collection holds at most 1000 records.
\<close>

theorem book_roundtrip:
  assumes "book rt now uid b st = (Created r, st')"
  shows "name r = trim (body_name b) \<and> sex r = body_sex b \<and> body_age b = Some (age r)
       \<and> complaint r = trim (body_complaint b)
       \<and> newDate rt (toDate rt (body_appointmentDate b)) = Some (appointmentDate r)
       \<and> timeSlot r = body_timeSlot b
       \<and> appt_id r = uid \<and> createdAt r = now \<and> updatedAt r = now
       \<and> status r = js ''scheduled''
       \<and> appointment_date r = toISODate rt (appointmentDate r)
       \<and> time_slot r = body_timeSlot b \<and> created_at r = now
       \<and> (\<forall>r' \<in> set (listing (fst (list_appointments rt st'))). appt_id r' = uid \<longrightarrow> r' = r)
       \<and> (length st' \<le> 1000 \<longrightarrow> r \<in> set (listing (fst (list_appointments rt st'))))"
proof -
  obtain n where n: "body_age b = Some n"
    and r0: "r = toResponse rt (newAppointment now uid b n (requestedDate rt b))"
    and st0: "st' = st @ [newAppointment now uid b n (requestedDate rt b)]"
    using book_Created(5) [OF assms] by blast
  define a where "a = newAppointment now uid b n (requestedDate rt b)"
  have r: "r = toResponse rt a" and st': "st' = st @ [a]"
    using r0 st0 by (simp_all add: a_def)
  have fresh: "uid \<notin> set (map appt_id st)"
    using book_Created(4) [OF assms] .
  have fields: "name r = trim (body_name b) \<and> sex r = body_sex b \<and> body_age b = Some (age r)
       \<and> complaint r = trim (body_complaint b)
       \<and> newDate rt (toDate rt (body_appointmentDate b)) = Some (appointmentDate r)
       \<and> timeSlot r = body_timeSlot b
       \<and> appt_id r = uid \<and> createdAt r = now \<and> updatedAt r = now
       \<and> status r = js ''scheduled''
       \<and> appointment_date r = toISODate rt (appointmentDate r)
       \<and> time_slot r = body_timeSlot b \<and> created_at r = now"
    by (simp add: r a_def toResponse_fields newAppointment_def newDate_toDate n trim_trim)
  have only: "x = a" if "x \<in> set st'" and "appt_id x = uid" for x
    using that fresh by (auto simp: st')
  have look: "\<forall>r' \<in> set (listing (fst (list_appointments rt st'))). appt_id r' = uid \<longrightarrow> r' = r"
  proof (intro ballI impI)
    fix r' assume "r' \<in> set (listing (fst (list_appointments rt st')))" and u: "appt_id r' = uid"
    then obtain x where x: "x \<in> set (take 1000 (sort_key appointmentDate st'))"
      and r': "r' = toResponse rt x"
      by (auto simp: list_appointments_def listing_def)
    have "x \<in> set st'" using x in_set_takeD by fastforce
    then show "r' = r" using only u r r' by (simp add: toResponse_fields)
  qed
  have listed: "length st' \<le> 1000 \<longrightarrow> r \<in> set (listing (fst (list_appointments rt st')))"
    by (simp add: list_appointments_def listing_def r st')
  from fields look listed show ?thesis by blast
qed

lemma padded_body_fields:
  "body_name padded_body = js ''  Asha Rao'' @ [160]" "body_sex padded_body = js ''Female''"
  "body_age padded_body = Some 30" "body_complaint padded_body = js ''Toothache''"
  "body_appointmentDate padded_body = js ''2025-06-10''"
  "body_timeSlot padded_body = slot_9_10"
  by (simp_all add: padded_body_def example_body_def)

lemma padded_book:
  "book example_runtime 1748736000000 (js ''id-1'') padded_body [] =
     (Created (toResponse example_runtime (example_doc (js ''id-1''))),
      [example_doc (js ''id-1'')])"
proof -
  have "validationErrors example_runtime padded_body = validationErrors example_runtime example_body"
    by (simp add: validationErrors_def padded_body_fields example_body_fields trim_examples)
  then have v: "validationErrors example_runtime padded_body = []"
    using example_body_valid [of 0] by (simp add: example_runtimes)
  have p: "policyAccepts example_runtime 1748736000000 padded_body"
    using example_policy_before
    by (simp add: policyAccepts_def padded_body_fields example_body_fields)
  have d: "requestedDate example_runtime padded_body = 1749513600000"
    using example_requestedDate [of 0]
    by (simp add: requestedDate_def padded_body_fields example_body_fields example_runtimes)
  have a: "newAppointment 1748736000000 (js ''id-1'') padded_body 30 1749513600000
             = example_doc (js ''id-1'')"
    by (simp add: newAppointment_def example_doc_def padded_body_fields trim_examples)
  show ?thesis
    using v p
    by (simp add: book_def book_precheck_cases book_create_cases d a padded_body_fields
        example_doc_valid js_id_nonempty)
qed

text \<open>
  C8, an instance: the request whose name is sent as "  Asha Rao" followed by U+00A0
  is booked and listed with the name "Asha Rao", the age 30 and the date 2025-06-10.
\<close>

theorem book_roundtrip_witness:
  "book example_runtime 1748736000000 (js ''id-1'') padded_body [] =
     (Created (toResponse example_runtime (example_doc (js ''id-1''))),
      [example_doc (js ''id-1'')])
   \<and> name (toResponse example_runtime (example_doc (js ''id-1''))) = trim (body_name padded_body)
   \<and> trim (body_name padded_body) = js ''Asha Rao''
   \<and> body_age padded_body = Some (age (toResponse example_runtime (example_doc (js ''id-1''))))
   \<and> appointment_date (toResponse example_runtime (example_doc (js ''id-1''))) = js ''2025-06-10''
   \<and> length [example_doc (js ''id-1'')] \<le> 1000
   \<and> toResponse example_runtime (example_doc (js ''id-1''))
        \<in> set (listing (fst (list_appointments example_runtime [example_doc (js ''id-1'')])))"
proof -
  have t: "trim (body_name padded_body) = js ''Asha Rao''"
    by (simp add: padded_body_fields trim_examples)
  have i: "toISODate example_runtime 1749513600000 = js ''2025-06-10''"
    by (simp add: example_runtimes runtime_at_def)
  have l: "length [example_doc (js ''id-1'')] \<le> 1000" by simp
  from book_roundtrip [OF padded_book] padded_book t i l show ?thesis
    by (simp add: toResponse_fields example_doc_fields)
qed

text \<open>
  C8 as it is written fails: the name sent is "  Asha Rao" followed by U+00A0, the
  booking succeeds, and the name of the appointment returned is "Asha Rao", another
  string.
\<close>

theorem book_roundtrip_name_counterexample:
  "body_name padded_body = js ''  Asha Rao'' @ [160]
   \<and> map_option name (created (fst (book example_runtime 1748736000000 (js ''id-1'')
        padded_body []))) = Some (js ''Asha Rao'')
   \<and> js ''  Asha Rao'' @ [160] \<noteq> js ''Asha Rao''"
  by (simp add: padded_book created_def toResponse_fields padded_body_fields)
    (simp add: example_doc_def js_def)

section \<open>The available slots of a date\<close>

lemma spec_theoreticalSlots_cases:
  "spec_theoreticalSlots day =
     (if day = 0 then [] else if day = 6 then saturdaySlots else allSlots)"
  by (simp add: spec_theoreticalSlots_def allSlots_def saturdaySlots_def slot_defs)

text \<open>
  Where the server's local clock shows the calendar date of the time value \<open>d\<close> that the
  date string parses to, the availability query sends the theoretical slots of the day
  of the week of that date that are not the time slot of a record stored with the date
  \<open>d\<close>, in the order of the catalogue; on a Sunday that is the empty list, sent with a
  note. The current time is no argument of the query. The collection is left as it was.
\<close>

lemma available_slots_listing:
  assumes "s \<noteq> []" and "parseDate rt s = Some d"
    and "spec_localDay rt d = spec_dateDay d"
  shows "available_slots rt (Some s) st =
           (AvailableSlots
              (filter (\<lambda>slot. slot \<notin> set (map timeSlot (filter (\<lambda>a. appointmentDate a = d) st)))
                 (spec_theoreticalSlots (spec_weekday d)))
              (if spec_weekday d = 0
               then Some ''No appointments available on Sundays'' else None),
            st)"
  using assms(1,2) getDay_aligned [OF assms(3)]
  by (simp add: available_slots_def find_by_date_def spec_theoreticalSlots_cases Let_def)

text \<open>
  Scenario E of the specification, on a server on UTC: with the booking of 2025-06-10,
  9:00 to 10:00 AM stored, the query for 2025-06-10 sends the other five slots.
\<close>

lemma available_slots_tuesday:
  "available_slots example_runtime (Some (js ''2025-06-10'')) [example_doc (js ''id-1'')] =
       (AvailableSlots [slot_10_11, slot_11_12, slot_12_1, slot_2_3, slot_3_4] None,
        [example_doc (js ''id-1'')])"
proof -
  have n: "js ''2025-06-10'' \<noteq> []" by (simp add: js_def)
  have p: "parseDate example_runtime (js ''2025-06-10'') = Some 1749513600000"
    by (simp add: example_runtimes runtime_at_simps)
  have a: "spec_localDay example_runtime 1749513600000 = spec_dateDay 1749513600000"
    by (simp add: day_defs example_runtimes runtime_at_simps)
  have w: "spec_weekday 1749513600000 = 2"
    by (simp add: day_defs)
  have f: "filter (\<lambda>slot. slot \<noteq> slot_9_10) allSlots
             = [slot_10_11, slot_11_12, slot_12_1, slot_2_3, slot_3_4]"
    by (simp add: allSlots_def slot_defs)
  show ?thesis
    unfolding available_slots_listing [OF n p a, of "[example_doc (js ''id-1'')]"]
    by (simp add: w example_doc_fields f spec_theoreticalSlots_cases)
qed

text \<open>
  C6 does not hold of the code on a server west of UTC. The date-only string is parsed
  to the midnight of UTC, and \<open>getDay()\<close> reads the day of the week of the local time,
  which is still the evening before. On a server five hours west of UTC and an empty
  collection, the query for Sunday 2024-01-14 sends the four Saturday slots and no note,
  and the query for Saturday 2024-01-13 sends all six slots.
\<close>

theorem available_slots_sunday_west_of_utc:
  "parseDate west_runtime (js ''2024-01-14'') = Some 1705190400000
   \<and> spec_weekday 1705190400000 = 0
   \<and> available_slots west_runtime (Some (js ''2024-01-14'')) [] =
       (AvailableSlots [slot_9_10, slot_10_11, slot_11_12, slot_12_1] None, [])
   \<and> parseDate west_runtime (js ''2024-01-13'') = Some 1705104000000
   \<and> spec_weekday 1705104000000 = 6
   \<and> available_slots west_runtime (Some (js ''2024-01-13'')) [] =
       (AvailableSlots [slot_9_10, slot_10_11, slot_11_12, slot_12_1, slot_2_3, slot_3_4]
          None, [])"
proof -
  have n: "js ''2024-01-14'' \<noteq> []" "js ''2024-01-13'' \<noteq> []"
    by (simp_all add: js_def)
  show ?thesis
    using n
    by (simp add: available_slots_def getDay_def find_by_date_def saturdaySlots_def allSlots_def
        example_runtimes runtime_at_simps day_defs)
qed

section \<open>Malformed dates and slots\<close>

text \<open>
  A booking whose date string fails the ISO 8601 check, or whose time slot is not one of
  the six, is answered with the list of field errors, and nothing is stored.
\<close>

lemma book_rejects_malformed:
  assumes "\<not> isISO8601 rt (body_appointmentDate b) \<or> body_timeSlot b \<notin> set allSlots"
  shows "book rt now uid b st = (ValidationFailed (validationErrors rt b), st)"
    and "validationErrors rt b \<noteq> []"
proof -
  show "validationErrors rt b \<noteq> []"
    using assms by (auto simp: validationErrors_def Let_def)
  then show "book rt now uid b st = (ValidationFailed (validationErrors rt b), st)"
    by (simp add: book_def book_precheck_cases)
qed

text \<open>
  A date string that passes the ISO 8601 check and that \<open>Date.parse\<close> does not parse
  gets no field error: \<open>toDate()\<close> makes it \<open>null\<close>, and the slot policy is asked about
  the date that \<open>new Date(null)\<close> builds, 1970-01-01.
\<close>

lemma book_unparsed_date_to_policy:
  assumes "validationErrors rt b = []" and "parseDate rt (body_appointmentDate b) = None"
  shows "book_precheck rt now b st \<noteq> Some (ValidationFailed (validationErrors rt b))"
    and "policyAccepts rt now b = isValid (validateAppointmentSlot rt now JNull (body_timeSlot b))"
  using assms by (simp_all add: book_precheck_cases policyAccepts_def toDate_def)

text \<open>
  C9 does not hold of the availability query: its handler checks that the parameter is
  there and nothing else. With the string \<open>tomorrow\<close>, which parses to an Invalid Date,
  it takes the day of the week, which is neither Sunday nor Saturday, queries the
  collection with the Invalid Date, and answers with the status 500 of its \<open>catch\<close>,
  not with an error about the input.
\<close>

theorem available_slots_malformed_date:
  "parseDate example_runtime (js ''tomorrow'') = None
   \<and> available_slots example_runtime (Some (js ''tomorrow'')) [example_doc (js ''id-1'')] =
       (ServerError ''Failed to fetch available slots'', [example_doc (js ''id-1'')])"
proof -
  have "js ''tomorrow'' \<noteq> []" by (simp add: js_def)
  then show ?thesis
    by (simp add: available_slots_def getDay_def example_runtimes runtime_at_simps)
qed

section \<open>The availability query without its parameter\<close>

text \<open>
  C10: when the \<open>appointment_date\<close> parameter is absent, the availability query answers
  with the error "appointment_date query parameter is required", whatever the runtime
  and the collection are, and leaves the collection as it was. The answer is that of the
  first test of the handler, before any date is built and before the collection is read.
\<close>

theorem available_slots_absent_parameter:
  "available_slots rt None st =
     (BadRequest ''appointment_date query parameter is required'', st)"
  by (simp add: available_slots_def)

end
